theory Spec2Isabelle
  imports Main
begin

section \<open>Values, exceptions and the outside world of \<open>app.py\<close>\<close>

text \<open>
  The values the handlers of \<open>app.py\<close> pass around are what \<open>json.load\<close>,
  \<open>response.json()\<close> and \<open>request.get_json\<close> produce: \<open>None\<close>, booleans, numbers,
  strings, lists and dicts. A dict is an association list whose first binding of a key is
  the one \<open>.get\<close> and \<open>[...]\<close> see. Numbers are integers here: the code only tests a
  number for truthiness and compares it with a string, so a non-integral number behaves as
  a non-zero integer does.
\<close>

datatype json =
    JNull
  | JBool bool
  | JInt int
  | JStr string
  | JArr "json list"
  | JObj "(string \<times> json) list"

text \<open>Python's truth value of an object (\<open>if video_url:\<close>, \<open>if password_attempt\<close>).\<close>

fun truthy :: "json \<Rightarrow> bool" where
  "truthy JNull = False"
| "truthy (JBool b) = b"
| "truthy (JInt n) = (n \<noteq> 0)"
| "truthy (JStr s) = (s \<noteq> [])"
| "truthy (JArr xs) = (xs \<noteq> [])"
| "truthy (JObj kv) = (kv \<noteq> [])"

text \<open>\<open>type(v).__name__\<close>, as it appears in the message of an \<open>AttributeError\<close>.\<close>

fun type_name :: "json \<Rightarrow> string" where
  "type_name JNull = ''NoneType''"
| "type_name (JBool b) = ''bool''"
| "type_name (JInt n) = ''int''"
| "type_name (JStr s) = ''str''"
| "type_name (JArr xs) = ''list''"
| "type_name (JObj kv) = ''dict''"

text \<open>
  An exception object: its class name and the text \<open>str(e)\<close> gives. Every exception below
  is an instance of \<open>Exception\<close>, which is what the \<open>except Exception\<close> clauses and the
  bare \<open>except\<close> catch.
\<close>

datatype exn = Exn string string

fun str_exn :: "exn \<Rightarrow> string" where
  "str_exn (Exn cls msg) = msg"

text \<open>
  What the file \<open>last_video.json\<close> holds: text that \<open>json.load\<close> rejects (an empty or
  half-written file among others), or text that \<open>json.load\<close> reads as a value;
  \<open>json.dump\<close> of a value followed by \<open>json.load\<close> gives the value back.
\<close>

datatype content = Garbage | Doc json

text \<open>
  How \<open>with open(VIDEO_STORE_FILE, "w") as f: json.dump(..., f)\<close> goes: it completes, or
  \<open>open\<close> raises and the file stays as it was, or \<open>open\<close> has truncated the file and
  the write or the close raises.
\<close>

datatype write_mode = WriteOk | OpenFails exn | DumpFails exn

text \<open>A \<open>print\<close> of the program, by source line.\<close>

datatype diag =
    DiagSaveFailed exn
  | DiagFetchFailed exn
  | DiagVisitLogFailed exn
  | DiagLog json
  | DiagSheetLogFailed exn
  | DiagLogError exn
  | DiagUploading string
  | DiagUploadOk json
  | DiagUploadLogFailed exn
  | DiagUploadError exn

text \<open>A file of \<open>request.files\<close> (werkzeug's \<open>FileStorage\<close>).\<close>

record file_storage =
  filename :: string
  stream :: "nat list"

text \<open>
  The state the program changes: the cache file with its permissions, the requests that
  reached (or were sent towards) the logging sink and the media host, and standard output.
  \<open>cache_reads\<close> counts the accesses that look at the cache file
  (\<open>os.path.exists\<close> and \<open>open(..., "r")\<close>).
\<close>

record world =
  cache_file :: "content option"
  read_fault :: "exn option"
  cache_write :: write_mode
  cache_reads :: nat
  posted :: "json list"
  uploaded :: "file_storage list"
  printed :: "diag list"

text \<open>What the remote end does on this request, and the process configuration.\<close>

datatype get_outcome = GetRaises exn | GetNotJson exn | GetJson json

datatype upload_outcome = UploadRaises exn | UploadOk "(string \<times> json) list"

record env =
  GOOGLE_SCRIPT_URL :: "string option"
  get_outcome :: get_outcome
  post_outcome :: "exn option"
  upload_outcome :: upload_outcome
  india_time :: string

datatype req_body = BadJson exn | GoodJson json

text \<open>
  A request: the two addresses, what \<open>get_json(force=True)\<close> makes of the body, and the
  form data. \<open>files\<close> are the file parts the body carries; \<open>form_error\<close> is the
  exception werkzeug's form parser raises for this body when it refuses it
  (\<open>RequestEntityTooLarge\<close> for more fields than \<open>max_form_parts\<close>, for instance).
\<close>

record request =
  x_forwarded_for :: "string option"
  remote_addr :: "string option"
  body :: req_body
  files :: "(string \<times> file_storage) list"
  form_error :: "exn option"

datatype response = Html json | Jsonify json

section \<open>Statements that change the world and may raise\<close>

type_synonym 'a py = "world \<Rightarrow> (exn + 'a) \<times> world"

definition py_return :: "'a \<Rightarrow> 'a py" where
  "py_return x = (\<lambda>w. (Inr x, w))"

definition py_raise :: "exn \<Rightarrow> 'a py" where
  "py_raise e = (\<lambda>w. (Inl e, w))"

definition py_bind :: "'a py \<Rightarrow> ('a \<Rightarrow> 'b py) \<Rightarrow> 'b py" where
  "py_bind m f = (\<lambda>w. case m w of (Inl e, w') \<Rightarrow> (Inl e, w') | (Inr x, w') \<Rightarrow> f x w')"

text \<open>\<open>try: m except Exception as e: h e\<close>; what \<open>m\<close> did before raising stays done.\<close>

definition py_try :: "'a py \<Rightarrow> (exn \<Rightarrow> 'a py) \<Rightarrow> 'a py" where
  "py_try m h = (\<lambda>w. case m w of (Inl e, w') \<Rightarrow> h e w' | (Inr x, w') \<Rightarrow> (Inr x, w'))"

definition py_print :: "diag \<Rightarrow> unit py" where
  "py_print d = (\<lambda>w. (Inr (), w\<lparr>printed := printed w @ [d]\<rparr>))"

text \<open>\<open>d.get(k, default)\<close> on a dict.\<close>

definition dict_get :: "(string \<times> json) list \<Rightarrow> string \<Rightarrow> json \<Rightarrow> json" where
  "dict_get kv k d = (case map_of kv k of Some v \<Rightarrow> v | None \<Rightarrow> d)"

text \<open>\<open>data.get(k, default)\<close> on whatever \<open>data\<close> is: only a dict has the method.\<close>

definition no_attribute_get :: "json \<Rightarrow> exn" where
  "no_attribute_get v =
     Exn ''AttributeError''
       ([CHR 0x27] @ type_name v @ [CHR 0x27] @ '' object has no attribute '' @
        [CHR 0x27] @ ''get'' @ [CHR 0x27])"

fun py_get :: "json \<Rightarrow> string \<Rightarrow> json \<Rightarrow> json py" where
  "py_get (JObj kv) k d = py_return (dict_get kv k d)"
| "py_get v k d = py_raise (no_attribute_get v)"

text \<open>\<open>if GOOGLE_SCRIPT_URL:\<close> (\<open>os.getenv\<close> gives \<open>None\<close> or a string).\<close>

definition url_set :: "env \<Rightarrow> bool" where
  "url_set e = (case GOOGLE_SCRIPT_URL e of None \<Rightarrow> False | Some u \<Rightarrow> u \<noteq> [])"

text \<open>
  \<open>requests.get(GOOGLE_SCRIPT_URL, timeout=10)\<close> followed by \<open>response.json()\<close>. With no
  URL configured \<open>requests\<close> raises \<open>MissingSchema\<close> before anything is sent.
\<close>

definition requests_get_json :: "env \<Rightarrow> json py" where
  "requests_get_json e =
     (if \<not> url_set e then py_raise (Exn ''MissingSchema'' ''Invalid URL: No scheme supplied'')
      else case get_outcome e of
             GetRaises x \<Rightarrow> py_raise x
           | GetNotJson x \<Rightarrow> py_raise x
           | GetJson j \<Rightarrow> py_return j)"

text \<open>\<open>requests.post(GOOGLE_SCRIPT_URL, json=payload, timeout=10)\<close>.\<close>

definition requests_post :: "env \<Rightarrow> json \<Rightarrow> unit py" where
  "requests_post e payload =
     (\<lambda>w. let w' = w\<lparr>posted := posted w @ [payload]\<rparr>
          in case post_outcome e of None \<Rightarrow> (Inr (), w') | Some x \<Rightarrow> (Inl x, w'))"

text \<open>\<open>cloudinary.uploader.upload(video, resource_type="video", folder="stories")\<close>.\<close>

definition cloudinary_upload :: "env \<Rightarrow> file_storage \<Rightarrow> (string \<times> json) list py" where
  "cloudinary_upload e video =
     (\<lambda>w. let w' = w\<lparr>uploaded := uploaded w @ [video]\<rparr>
          in case upload_outcome e of UploadRaises x \<Rightarrow> (Inl x, w') | UploadOk res \<Rightarrow> (Inr res, w'))"

text \<open>Lines 34-35: \<open>with open(VIDEO_STORE_FILE, "w") as f: json.dump(v, f)\<close>.\<close>

definition open_w_json_dump :: "json \<Rightarrow> unit py" where
  "open_w_json_dump v =
     (\<lambda>w. case cache_write w of
            WriteOk \<Rightarrow> (Inr (), w\<lparr>cache_file := Some (Doc v)\<rparr>)
          | OpenFails x \<Rightarrow> (Inl x, w)
          | DumpFails x \<Rightarrow> (Inl x, w\<lparr>cache_file := Some Garbage\<rparr>))"

text \<open>Line 53: \<open>os.path.exists(VIDEO_STORE_FILE)\<close>.\<close>

definition os_path_exists :: "bool py" where
  "os_path_exists = (\<lambda>w. (Inr (cache_file w \<noteq> None), w\<lparr>cache_reads := Suc (cache_reads w)\<rparr>))"

text \<open>Lines 55-56: \<open>with open(VIDEO_STORE_FILE, "r") as f: data = json.load(f)\<close>.\<close>

definition open_r_json_load :: "json py" where
  "open_r_json_load =
     (\<lambda>w. let w' = w\<lparr>cache_reads := Suc (cache_reads w)\<rparr>
          in case read_fault w of
               Some x \<Rightarrow> (Inl x, w')
             | None \<Rightarrow>
                 (case cache_file w of
                    None \<Rightarrow> (Inl (Exn ''FileNotFoundError'' ''No such file or directory''), w')
                  | Some Garbage \<Rightarrow> (Inl (Exn ''JSONDecodeError'' ''Expecting value''), w')
                  | Some (Doc j) \<Rightarrow> (Inr j, w')))"

section \<open>Helpers (lines 31-60)\<close>

definition save_last_video :: "json \<Rightarrow> unit py" where
  "save_last_video video_url =
     py_try (open_w_json_dump (JObj [(''video_url'', video_url)]))
       (\<lambda>e. py_print (DiagSaveFailed e))"

text \<open>
  Lines 43-48, the body of the \<open>try\<close>: \<open>Some v\<close> when it leaves the function by
  \<open>return video_url\<close>, \<open>None\<close> when it runs to its end.
\<close>

definition fetch_remote :: "env \<Rightarrow> json option py" where
  "fetch_remote e =
     py_bind (requests_get_json e) (\<lambda>data.
     py_bind (py_get data ''video_url'' JNull) (\<lambda>video_url.
       if truthy video_url
       then py_bind (save_last_video video_url) (\<lambda>_. py_return (Some video_url))
       else py_return None))"

text \<open>Lines 53-60, the fallback to the local file.\<close>

definition read_cache :: "json py" where
  "read_cache =
     py_bind os_path_exists (\<lambda>ex.
       if ex
       then py_try (py_bind open_r_json_load (\<lambda>data. py_get data ''video_url'' JNull))
              (\<lambda>_. py_return JNull)
       else py_return JNull)"

definition get_last_video :: "env \<Rightarrow> json py" where
  "get_last_video e =
     py_bind
       (py_try (fetch_remote e)
          (\<lambda>x. py_bind (py_print (DiagFetchFailed x)) (\<lambda>_. py_return None)))
       (\<lambda>r. case r of Some video_url \<Rightarrow> py_return video_url | None \<Rightarrow> read_cache)"

section \<open>Routes (lines 66-180)\<close>

text \<open>\<open>request.headers.get("X-Forwarded-For", request.remote_addr)\<close>.\<close>

definition ip_address :: "request \<Rightarrow> json" where
  "ip_address r =
     (case x_forwarded_for r of
        Some h \<Rightarrow> JStr h
      | None \<Rightarrow> (case remote_addr r of Some a \<Rightarrow> JStr a | None \<Rightarrow> JNull))"

definition index :: "env \<Rightarrow> request \<Rightarrow> response py" where
  "index e r =
     py_bind (get_last_video e) (\<lambda>video_url.
     py_bind
       (py_try
          (let payload = JObj [(''timestamp'', JStr (india_time e)),
                               (''event'', JStr ''page_visit''),
                               (''ip_address'', ip_address r),
                               (''password_attempt'', JStr []),
                               (''result'', JStr ''visited'')]
           in if url_set e then requests_post e payload else py_return ())
          (\<lambda>x. py_print (DiagVisitLogFailed x)))
       (\<lambda>_. py_return (Html video_url)))"

text \<open>\<open>request.get_json(force=True)\<close>: a body that is not JSON raises \<open>BadRequest\<close>.\<close>

definition get_json :: "request \<Rightarrow> json py" where
  "get_json r = (case body r of BadJson x \<Rightarrow> py_raise x | GoodJson j \<Rightarrow> py_return j)"

definition log_action :: "env \<Rightarrow> request \<Rightarrow> response py" where
  "log_action e r =
     py_try
       (py_bind (get_json r) (\<lambda>data.
        py_bind (py_print (DiagLog data)) (\<lambda>_.
        py_bind (py_get data ''password'' (JStr [])) (\<lambda>password_attempt.
        py_bind (py_get data ''action''
                   (JStr (if truthy password_attempt then ''password_attempt'' else ''unknown'')))
          (\<lambda>event.
        let result = (if password_attempt = JStr ''23E51A05C1'' then ''success''
                      else if truthy password_attempt then ''failed'' else ''clicked'');
            payload = JObj [(''timestamp'', JStr (india_time e)),
                            (''event'', event),
                            (''ip_address'', ip_address r),
                            (''password_attempt'', password_attempt),
                            (''result'', JStr result)]
        in py_bind
             (if url_set e
              then py_try (requests_post e payload) (\<lambda>x. py_print (DiagSheetLogFailed x))
              else py_return ())
             (\<lambda>_. py_return
                (Jsonify (JObj [(''status'', JStr ''ok''), (''result'', JStr result)]))))))))
       (\<lambda>x. py_bind (py_print (DiagLogError x)) (\<lambda>_.
          py_return (Jsonify (JObj [(''status'', JStr ''error''),
                                    (''error'', JStr (str_exn x))]))))"

text \<open>
  \<open>request.files\<close>: the form data is parsed when the attribute is first read, so the
  read raises what the parser raises; a later read gives the same dict.
\<close>

definition request_files :: "request \<Rightarrow> (string \<times> file_storage) list py" where
  "request_files r = (case form_error r of Some x \<Rightarrow> py_raise x | None \<Rightarrow> py_return (files r))"

text \<open>
  \<open>secure_filename\<close> is werkzeug's; the handler only prints and logs what it returns, so
  it is a parameter here.
\<close>

definition upload_story :: "(string \<Rightarrow> string) \<Rightarrow> env \<Rightarrow> request \<Rightarrow> response py" where
  "upload_story secure_filename e r =
     py_try
       (py_bind (request_files r) (\<lambda>parts.
        case map_of parts ''video'' of
          None \<Rightarrow>
            py_return (Jsonify (JObj [(''status'', JStr ''error''),
                                      (''error'', JStr ''No video part'')]))
        | Some video \<Rightarrow>
            if filename video = []
            then py_return (Jsonify (JObj [(''status'', JStr ''error''),
                                           (''error'', JStr ''No selected file'')]))
            else
              let fname = secure_filename (filename video)
              in py_bind (py_print (DiagUploading fname)) (\<lambda>_.
                 py_bind (cloudinary_upload e video) (\<lambda>upload_result.
                 let video_url = dict_get upload_result ''secure_url'' JNull
                 in py_bind (py_print (DiagUploadOk video_url)) (\<lambda>_.
                    py_bind (save_last_video video_url) (\<lambda>_.
                    let log_data = JObj [(''timestamp'', JStr (india_time e)),
                                         (''event'', JStr ''video_uploaded''),
                                         (''ip_address'', ip_address r),
                                         (''password_attempt'', JStr fname),
                                         (''video_url'', video_url),
                                         (''result'', JStr ''uploaded'')]
                    in py_bind
                         (if url_set e
                          then py_try (requests_post e log_data)
                                 (\<lambda>x. py_print (DiagUploadLogFailed x))
                          else py_return ())
                         (\<lambda>_. py_return
                            (Jsonify (JObj [(''status'', JStr ''ok''),
                                            (''video_url'', video_url)])))))))))
       (\<lambda>x. py_bind (py_print (DiagUploadError x)) (\<lambda>_.
          py_return (Jsonify (JObj [(''status'', JStr ''error''),
                                    (''error'', JStr (str_exn x))]))))"

section \<open>Classifying what the remote end did\<close>

text \<open>
  The remote fetch fails when the \<open>try\<close> of \<open>get_last_video\<close> does not reach
  \<open>return video_url\<close>: no usable URL, \<open>requests.get\<close> raises, the body is not JSON, the
  JSON is not an object, or its \<open>video_url\<close> is missing or falsy. The remote is
  unreachable when \<open>requests.get\<close> itself raises.
\<close>

definition remote_fails :: "env \<Rightarrow> bool" where
  "remote_fails e =
     (if url_set e
      then (case get_outcome e of
              GetRaises x \<Rightarrow> True
            | GetNotJson x \<Rightarrow> True
            | GetJson (JObj kv) \<Rightarrow> (if truthy (dict_get kv ''video_url'' JNull) then False else True)
            | GetJson _ \<Rightarrow> True)
      else True)"

definition remote_unreachable :: "env \<Rightarrow> bool" where
  "remote_unreachable e =
     (if url_set e then (case get_outcome e of GetRaises x \<Rightarrow> True | _ \<Rightarrow> False) else True)"

section \<open>Concrete inputs\<close>

definition disk_error :: exn where
  "disk_error = Exn ''PermissionError'' ''Permission denied''"

definition net_error :: exn where
  "net_error = Exn ''ConnectionError'' ''Connection refused''"

definition env0 :: env where
  "env0 = \<lparr>GOOGLE_SCRIPT_URL = Some ''https://script.example/exec'',
            get_outcome = GetJson (JObj [(''video_url'', JStr ''https://cdn.example/new.mp4'')]),
            post_outcome = None,
            upload_outcome = UploadOk [(''secure_url'', JStr ''https://cdn.example/up.mp4'')],
            india_time = ''2024-01-01 10:00:00''\<rparr>"

definition world0 :: world where
  "world0 = \<lparr>cache_file = Some (Doc (JObj [(''video_url'', JStr ''https://cdn.example/old.mp4'')])),
              read_fault = None,
              cache_write = WriteOk,
              cache_reads = 0,
              posted = [],
              uploaded = [],
              printed = []\<rparr>"

definition request0 :: request where
  "request0 = \<lparr>x_forwarded_for = None,
                remote_addr = Some ''203.0.113.7'',
                body = GoodJson (JObj [(''password'', JStr ''23E51A05C1'')]),
                files = [(''video'', \<lparr>filename = ''clip.mp4'', stream = [0, 1, 2]\<rparr>)],
                form_error = None\<rparr>"

definition too_many_fields :: exn where
  "too_many_fields =
     Exn ''RequestEntityTooLarge''
       ''413 Request Entity Too Large: The data value transmitted exceeds the capacity limit.''"

section \<open>Running the helpers\<close>

lemmas py_defs = py_return_def py_raise_def py_bind_def py_try_def py_print_def

lemma save_last_video_run:
  "save_last_video v w =
     (Inr (),
      case cache_write w of
        WriteOk \<Rightarrow> w\<lparr>cache_file := Some (Doc (JObj [(''video_url'', v)]))\<rparr>
      | OpenFails x \<Rightarrow> w\<lparr>printed := printed w @ [DiagSaveFailed x]\<rparr>
      | DumpFails x \<Rightarrow> w\<lparr>cache_file := Some Garbage, printed := printed w @ [DiagSaveFailed x]\<rparr>)"
  by (simp add: save_last_video_def open_w_json_dump_def py_defs split: write_mode.splits)

lemma read_cache_absent:
  "cache_file w = None \<Longrightarrow> read_cache w = (Inr JNull, w\<lparr>cache_reads := Suc (cache_reads w)\<rparr>)"
  by (simp add: read_cache_def os_path_exists_def py_defs)

lemma read_cache_present:
  "cache_file w = Some c \<Longrightarrow>
   read_cache w =
     (Inr (case read_fault w of
             Some x \<Rightarrow> JNull
           | None \<Rightarrow> (case c of Doc (JObj kv) \<Rightarrow> dict_get kv ''video_url'' JNull | _ \<Rightarrow> JNull)),
      w\<lparr>cache_reads := Suc (Suc (cache_reads w))\<rparr>)"
  by (simp add: read_cache_def os_path_exists_def open_r_json_load_def py_defs Let_def
      split: option.splits content.splits json.splits)


lemma unreachable_fails: "remote_unreachable e \<Longrightarrow> remote_fails e"
  by (auto simp: remote_unreachable_def remote_fails_def split: get_outcome.splits if_splits)


lemma get_last_video_fallback:
  assumes "remote_fails e"
  shows "fst (get_last_video e w) = fst (read_cache w)
       \<and> cache_file (snd (get_last_video e w)) = cache_file w
       \<and> read_fault (snd (get_last_video e w)) = read_fault w
       \<and> cache_write (snd (get_last_video e w)) = cache_write w
       \<and> posted (snd (get_last_video e w)) = posted w
       \<and> uploaded (snd (get_last_video e w)) = uploaded w"
proof (cases "url_set e")
  case False
  then show ?thesis
    by (cases "cache_file w")
       (simp_all add: get_last_video_def fetch_remote_def requests_get_json_def py_defs
          read_cache_absent read_cache_present)
next
  case True
  show ?thesis
  proof (cases "get_outcome e")
    case (GetRaises x)
    with True show ?thesis
      by (cases "cache_file w")
         (simp_all add: get_last_video_def fetch_remote_def requests_get_json_def py_defs
            read_cache_absent read_cache_present)
  next
    case (GetNotJson x)
    with True show ?thesis
      by (cases "cache_file w")
         (simp_all add: get_last_video_def fetch_remote_def requests_get_json_def py_defs
            read_cache_absent read_cache_present)
  next
    case (GetJson j)
    with True assms show ?thesis
      by (cases j; cases "cache_file w")
         (simp_all add: get_last_video_def fetch_remote_def requests_get_json_def py_defs
            remote_fails_def read_cache_absent read_cache_present split: if_splits)
  qed
qed


lemma get_last_video_success:
  assumes "url_set e" "get_outcome e = GetJson (JObj kv)"
    and "truthy (dict_get kv ''video_url'' JNull)"
  shows "get_last_video e w =
           (Inr (dict_get kv ''video_url'' JNull),
            snd (save_last_video (dict_get kv ''video_url'' JNull) w))"
  using assms
  by (simp add: get_last_video_def fetch_remote_def requests_get_json_def py_defs
      save_last_video_run)

lemma remote_dichotomy:
  "remote_fails e \<or>
   (url_set e \<and> (\<exists>kv. get_outcome e = GetJson (JObj kv) \<and> truthy (dict_get kv ''video_url'' JNull)))"
  by (cases "get_outcome e")
     (auto simp: remote_fails_def split: json.splits)

lemma read_cache_returns: "\<exists>v. fst (read_cache w) = Inr v"
  by (cases "cache_file w") (simp_all add: read_cache_absent read_cache_present)

lemma get_last_video_returns: "\<exists>v. fst (get_last_video e w) = Inr v"
  using remote_dichotomy[of e] read_cache_returns[of w]
  by (auto simp: get_last_video_fallback get_last_video_success)

lemma get_last_video_post_irrelevant:
  "get_last_video (e\<lparr>post_outcome := po\<rparr>) = get_last_video e"
  by (simp add: get_last_video_def fetch_remote_def requests_get_json_def url_set_def)

lemma log_action_object:
  assumes "body r = GoodJson (JObj kv)"
  shows "fst (log_action e r w) =
           Inr (Jsonify (JObj [(''status'', JStr ''ok''),
              (''result'',
               JStr (if dict_get kv ''password'' (JStr []) = JStr ''23E51A05C1'' then ''success''
                     else if truthy (dict_get kv ''password'' (JStr [])) then ''failed''
                     else ''clicked''))]))"
  using assms
  by (cases "post_outcome e")
     (simp_all add: log_action_def get_json_def requests_post_def py_defs Let_def)

lemma log_action_env_irrelevant:
  "fst (log_action e' r w) = fst (log_action e r w)"
proof (cases "body r")
  case (BadJson x)
  then show ?thesis by (simp add: log_action_def get_json_def py_defs)
next
  case (GoodJson j)
  then show ?thesis
    by (cases j; cases "post_outcome e"; cases "post_outcome e'")
       (simp_all add: log_action_def get_json_def requests_post_def py_defs Let_def)
qed

lemma upload_story_uploaded:
  assumes "map_of (files r) ''video'' = Some video" and "filename video \<noteq> []"
    and "upload_outcome e = UploadOk res" and "form_error r = None"
  shows "fst (upload_story secure_filename e r w) =
           Inr (Jsonify (JObj [(''status'', JStr ''ok''),
                               (''video_url'', dict_get res ''secure_url'' JNull)]))
       \<and> cache_file (snd (upload_story secure_filename e r w)) =
           cache_file (snd (save_last_video (dict_get res ''secure_url'' JNull) w))
       \<and> read_fault (snd (upload_story secure_filename e r w)) = read_fault w"
  using assms
  by (cases "post_outcome e"; cases "cache_write w")
     (simp_all add: upload_story_def request_files_def cloudinary_upload_def requests_post_def
        py_defs Let_def save_last_video_run)

lemma upload_story_upload_raises:
  assumes "map_of (files r) ''video'' = Some video" and "filename video \<noteq> []"
    and "upload_outcome e = UploadRaises x" and "form_error r = None"
  shows "fst (upload_story secure_filename e r w) =
           Inr (Jsonify (JObj [(''status'', JStr ''error''), (''error'', JStr (str_exn x))]))"
  using assms
  by (simp add: upload_story_def request_files_def cloudinary_upload_def py_defs Let_def)

lemma upload_story_form_refused:
  assumes "form_error r = Some x"
  shows "upload_story secure_filename e r w =
           (Inr (Jsonify (JObj [(''status'', JStr ''error''), (''error'', JStr (str_exn x))])),
            w\<lparr>printed := printed w @ [DiagUploadError x]\<rparr>)"
  using assms by (simp add: upload_story_def request_files_def py_defs)

lemma upload_story_rejected:
  "form_error r = None \<Longrightarrow>
   map_of (files r) ''video'' = None \<or>
   (\<exists>video. map_of (files r) ''video'' = Some video \<and> filename video = []) \<Longrightarrow>
   upload_story secure_filename e' r w = upload_story secure_filename e r w"
  by (auto simp: upload_story_def request_files_def py_defs)

lemma upload_story_post_irrelevant:
  assumes "upload_outcome e' = upload_outcome e"
  shows "fst (upload_story secure_filename e' r w) = fst (upload_story secure_filename e r w)"
proof (cases "form_error r")
  case (Some x)
  then show ?thesis by (simp add: upload_story_form_refused)
next
  case None
  note parsed = this
  show ?thesis
  proof (cases "map_of (files r) ''video''")
    case None
    with parsed show ?thesis
      using upload_story_rejected[of r secure_filename e' w e] by simp
  next
    case (Some video)
    show ?thesis
    proof (cases "filename video = []")
      case True
      with Some parsed show ?thesis
        using upload_story_rejected[of r secure_filename e' w e] by simp
    next
      case False
      show ?thesis
      proof (cases "upload_outcome e")
        case (UploadRaises x)
        with assms Some False parsed show ?thesis
          by (simp add: upload_story_upload_raises[of r video _ x])
      next
        case (UploadOk res)
        with assms Some False parsed show ?thesis
          by (simp add: upload_story_uploaded[of r video _ res])
      qed
    qed
  qed
qed

lemma index_response:
  assumes "fst (get_last_video e w) = Inr v"
  shows "fst (index e r w) = Inr (Html v)"
proof -
  obtain w' where g: "get_last_video e w = (Inr v, w')"
    using assms by (cases "get_last_video e w") simp
  show ?thesis
    by (cases "post_outcome e")
       (simp_all add: index_def py_bind_def py_try_def py_return_def py_print_def
          requests_post_def Let_def g)
qed

section \<open>The cache write (\<open>save_last_video\<close>)\<close>

text \<open>
  C8. For every value to cache and every way the write to \<open>last_video.json\<close> can go,
  \<open>save_last_video\<close> returns normally (it never raises to its caller), sends nothing to
  the logging sink or the media host, prints nothing when the write succeeds, and prints
  exactly one line, the failure, when \<open>open\<close> or the write raises.
\<close>

theorem save_last_video_never_raises:
  "fst (save_last_video v w) = Inr ()
   \<and> posted (snd (save_last_video v w)) = posted w
   \<and> uploaded (snd (save_last_video v w)) = uploaded w
   \<and> (cache_write w = WriteOk \<longrightarrow> printed (snd (save_last_video v w)) = printed w)
   \<and> (\<forall>x. cache_write w = OpenFails x \<or> cache_write w = DumpFails x \<longrightarrow>
          printed (snd (save_last_video v w)) = printed w @ [DiagSaveFailed x])"
  by (cases "cache_write w") (simp_all add: save_last_video_run)

theorem save_last_video_never_raises_witness:
  "cache_write (world0\<lparr>cache_write := OpenFails disk_error\<rparr>) = OpenFails disk_error
   \<and> fst (save_last_video (JStr ''https://cdn.example/new.mp4'')
            (world0\<lparr>cache_write := OpenFails disk_error\<rparr>)) = Inr ()
   \<and> printed (snd (save_last_video (JStr ''https://cdn.example/new.mp4'')
                 (world0\<lparr>cache_write := OpenFails disk_error\<rparr>))) = [DiagSaveFailed disk_error]"
  using save_last_video_never_raises
          [of "JStr ''https://cdn.example/new.mp4''" "world0\<lparr>cache_write := OpenFails disk_error\<rparr>"]
  by (simp add: world0_def)

section \<open>The resolver (\<open>get_last_video\<close>)\<close>

text \<open>
  C1, as amended. When a URL is configured, the GET succeeds and its JSON object has a
  truthy \<open>video_url\<close> (a non-empty string in particular), \<open>get_last_video\<close> returns
  exactly that value whatever the cache file holds and without looking at the cache file
  (\<open>cache_reads\<close> does not move); and when the write to the cache file succeeds, the
  only change to the world is that the cache file holds exactly \<open>{"video_url": v}\<close>.
\<close>

theorem get_last_video_remote_success:
  assumes "url_set e"
    and "get_outcome e = GetJson (JObj kv)"
    and "map_of kv ''video_url'' = Some v"
    and "truthy v"
  shows "fst (get_last_video e w) = Inr v
       \<and> cache_reads (snd (get_last_video e w)) = cache_reads w
       \<and> (cache_write w = WriteOk \<longrightarrow>
            snd (get_last_video e w) = w\<lparr>cache_file := Some (Doc (JObj [(''video_url'', v)]))\<rparr>)"
proof -
  from assms(3) have "dict_get kv ''video_url'' JNull = v"
    by (simp add: dict_get_def)
  with assms(1,2,4) have "get_last_video e w = (Inr v, snd (save_last_video v w))"
    using get_last_video_success[of e kv w] by simp
  then show ?thesis
    by (cases "cache_write w") (simp_all add: save_last_video_run)
qed

theorem get_last_video_remote_success_witness:
  "url_set env0 \<and> truthy (JStr ''https://cdn.example/new.mp4'') \<and> cache_write world0 = WriteOk
   \<and> get_last_video env0 world0 =
       (Inr (JStr ''https://cdn.example/new.mp4''),
        world0\<lparr>cache_file := Some (Doc (JObj [(''video_url'', JStr ''https://cdn.example/new.mp4'')]))\<rparr>)"
proof -
  have u: "url_set env0" by (simp add: url_set_def env0_def)
  have g: "get_outcome env0 = GetJson (JObj [(''video_url'', JStr ''https://cdn.example/new.mp4'')])"
    by (simp add: env0_def)
  have m: "map_of [(''video_url'', JStr ''https://cdn.example/new.mp4'')] ''video_url''
             = Some (JStr ''https://cdn.example/new.mp4'')" by simp
  have t: "truthy (JStr ''https://cdn.example/new.mp4'')" by simp
  have c: "cache_write world0 = WriteOk" by (simp add: world0_def)
  from get_last_video_remote_success[OF u g m t, of world0] c u t show ?thesis
    by (simp add: prod_eq_iff)
qed

text \<open>
  C1 as stated fails when the cache file cannot be opened for writing: the remote value
  is returned, and the cache file still holds the old URL, since \<open>save_last_video\<close>
  swallows the error.
\<close>

theorem get_last_video_write_fails_counterexample:
  "url_set env0
   \<and> get_outcome env0 = GetJson (JObj [(''video_url'', JStr ''https://cdn.example/new.mp4'')])
   \<and> fst (get_last_video env0 (world0\<lparr>cache_write := OpenFails disk_error\<rparr>))
       = Inr (JStr ''https://cdn.example/new.mp4'')
   \<and> cache_file (snd (get_last_video env0 (world0\<lparr>cache_write := OpenFails disk_error\<rparr>)))
       = Some (Doc (JObj [(''video_url'', JStr ''https://cdn.example/old.mp4'')]))"
  by (simp add: get_last_video_def fetch_remote_def requests_get_json_def py_defs
      save_last_video_run url_set_def env0_def world0_def dict_get_def)

text \<open>
  C2. When the remote fetch fails (no usable URL, a network error or timeout, a body that
  is not JSON or not an object, a missing or falsy \<open>video_url\<close>), \<open>get_last_video\<close>
  leaves the cache file, its readability and its writability as they were; it returns the
  \<open>video_url\<close> of the cache file when that file exists, can be read and holds a JSON
  object (\<open>None\<close> when the object has no such key); and it returns \<open>None\<close> when
  the file is absent, cannot be read, or does not hold a JSON object.
\<close>

theorem get_last_video_remote_failure:
  assumes "remote_fails e"
  shows "cache_file (snd (get_last_video e w)) = cache_file w
       \<and> read_fault (snd (get_last_video e w)) = read_fault w
       \<and> cache_write (snd (get_last_video e w)) = cache_write w
       \<and> (\<forall>kv. cache_file w = Some (Doc (JObj kv)) \<and> read_fault w = None \<longrightarrow>
            fst (get_last_video e w) = Inr (dict_get kv ''video_url'' JNull))
       \<and> (cache_file w = None \<or> read_fault w \<noteq> None \<or> cache_file w = Some Garbage
            \<or> (\<exists>j. cache_file w = Some (Doc j) \<and> (\<forall>kv. j \<noteq> JObj kv)) \<longrightarrow>
            fst (get_last_video e w) = Inr JNull)"
proof -
  note fb = get_last_video_fallback[OF assms, of w]
  have "\<forall>kv. cache_file w = Some (Doc (JObj kv)) \<and> read_fault w = None \<longrightarrow>
            fst (read_cache w) = Inr (dict_get kv ''video_url'' JNull)"
    by (simp add: read_cache_present)
  moreover have "cache_file w = None \<or> read_fault w \<noteq> None \<or> cache_file w = Some Garbage
            \<or> (\<exists>j. cache_file w = Some (Doc j) \<and> (\<forall>kv. j \<noteq> JObj kv)) \<longrightarrow>
            fst (read_cache w) = Inr JNull"
    by (cases "cache_file w")
       (auto simp: read_cache_absent read_cache_present split: option.splits content.splits json.splits)
  ultimately show ?thesis using fb by simp
qed

theorem get_last_video_remote_failure_witness:
  "remote_fails (env0\<lparr>get_outcome := GetRaises net_error\<rparr>)
   \<and> cache_file world0 = Some (Doc (JObj [(''video_url'', JStr ''https://cdn.example/old.mp4'')]))
   \<and> read_fault world0 = None
   \<and> fst (get_last_video (env0\<lparr>get_outcome := GetRaises net_error\<rparr>) world0)
       = Inr (JStr ''https://cdn.example/old.mp4'')
   \<and> cache_file (snd (get_last_video (env0\<lparr>get_outcome := GetRaises net_error\<rparr>) world0))
       = cache_file world0"
proof -
  have f: "remote_fails (env0\<lparr>get_outcome := GetRaises net_error\<rparr>)"
    by (simp add: remote_fails_def url_set_def env0_def)
  have c: "cache_file world0 = Some (Doc (JObj [(''video_url'', JStr ''https://cdn.example/old.mp4'')]))"
    and r: "read_fault world0 = None"
    by (simp_all add: world0_def)
  from get_last_video_remote_failure[OF f, of world0] f c r show ?thesis
    by (simp add: dict_get_def)
qed

text \<open>
  C7. Two calls of \<open>get_last_video\<close> with the remote unreachable both times, the second
  made on a world whose cache file (content and readability) is as the first call left it,
  return the same value.
\<close>

theorem get_last_video_fallback_idempotent:
  assumes "remote_unreachable e1" and "remote_unreachable e2"
    and "cache_file w2 = cache_file (snd (get_last_video e1 w))"
    and "read_fault w2 = read_fault (snd (get_last_video e1 w))"
  shows "fst (get_last_video e2 w2) = fst (get_last_video e1 w)"
proof -
  have same: "fst (read_cache a) = fst (read_cache b)"
    if "cache_file a = cache_file b" "read_fault a = read_fault b" for a b
    using that
    by (cases "cache_file b") (simp_all add: read_cache_absent read_cache_present)
  from assms(1) have f1: "remote_fails e1" by (rule unreachable_fails)
  from assms(2) have f2: "remote_fails e2" by (rule unreachable_fails)
  from get_last_video_fallback[OF f1, of w] assms(3,4)
  have "cache_file w2 = cache_file w" "read_fault w2 = read_fault w"
    "fst (get_last_video e1 w) = fst (read_cache w)" by simp_all
  moreover from get_last_video_fallback[OF f2, of w2]
  have "fst (get_last_video e2 w2) = fst (read_cache w2)" by simp
  ultimately show ?thesis using same[of w2 w] by simp
qed

theorem get_last_video_fallback_idempotent_witness:
  "remote_unreachable (env0\<lparr>get_outcome := GetRaises net_error\<rparr>)
   \<and> remote_unreachable (env0\<lparr>GOOGLE_SCRIPT_URL := None\<rparr>)
   \<and> fst (get_last_video (env0\<lparr>GOOGLE_SCRIPT_URL := None\<rparr>)
            (snd (get_last_video (env0\<lparr>get_outcome := GetRaises net_error\<rparr>) world0)))
       = fst (get_last_video (env0\<lparr>get_outcome := GetRaises net_error\<rparr>) world0)"
proof -
  have u1: "remote_unreachable (env0\<lparr>get_outcome := GetRaises net_error\<rparr>)"
    by (simp add: remote_unreachable_def url_set_def env0_def)
  have u2: "remote_unreachable (env0\<lparr>GOOGLE_SCRIPT_URL := None\<rparr>)"
    by (simp add: remote_unreachable_def url_set_def env0_def)
  from get_last_video_fallback_idempotent[OF u1 u2 refl refl] u1 u2 show ?thesis
    by simp
qed

section \<open>The action log (\<open>log_action\<close>)\<close>

text \<open>
  C3, as amended. For a body that is a JSON object, \<open>log_action\<close> answers with status
  \<open>ok\<close> and: result \<open>success\<close> when the password is exactly the fixed secret;
  result \<open>failed\<close> when the password is any other truthy (non-empty) value; result
  \<open>clicked\<close> when there is no password field or its value is falsy (the empty string,
  \<open>null\<close>, \<open>false\<close>, \<open>0\<close>, an empty list or object).
\<close>

theorem log_action_result:
  assumes "body r = GoodJson (JObj kv)"
  shows "(map_of kv ''password'' = Some (JStr ''23E51A05C1'') \<longrightarrow>
            fst (log_action e r w) =
              Inr (Jsonify (JObj [(''status'', JStr ''ok''), (''result'', JStr ''success'')])))
       \<and> (\<forall>p. map_of kv ''password'' = Some p \<and> truthy p \<and> p \<noteq> JStr ''23E51A05C1'' \<longrightarrow>
            fst (log_action e r w) =
              Inr (Jsonify (JObj [(''status'', JStr ''ok''), (''result'', JStr ''failed'')])))
       \<and> (map_of kv ''password'' = None \<or>
          (\<exists>p. map_of kv ''password'' = Some p \<and> \<not> truthy p) \<longrightarrow>
            fst (log_action e r w) =
              Inr (Jsonify (JObj [(''status'', JStr ''ok''), (''result'', JStr ''clicked'')])))"
  by (auto simp: log_action_object[OF assms] dict_get_def)

theorem log_action_result_witness:
  "body (request0\<lparr>body := GoodJson (JObj [(''password'', JStr ''letmein'')])\<rparr>)
     = GoodJson (JObj [(''password'', JStr ''letmein'')])
   \<and> map_of [(''password'', JStr ''letmein'')] ''password'' = Some (JStr ''letmein'')
   \<and> truthy (JStr ''letmein'') \<and> JStr ''letmein'' \<noteq> JStr ''23E51A05C1''
   \<and> fst (log_action env0 (request0\<lparr>body := GoodJson (JObj [(''password'', JStr ''letmein'')])\<rparr>) world0)
       = Inr (Jsonify (JObj [(''status'', JStr ''ok''), (''result'', JStr ''failed'')]))"
proof -
  have b: "body (request0\<lparr>body := GoodJson (JObj [(''password'', JStr ''letmein'')])\<rparr>)
     = GoodJson (JObj [(''password'', JStr ''letmein'')])" by simp
  from log_action_result[OF b, of env0 world0] show ?thesis by simp
qed

text \<open>
  C3 as stated fails for a password that is supplied and empty: it does not match the
  secret, and the result is \<open>clicked\<close>, not \<open>failed\<close>.
\<close>

theorem log_action_empty_password_counterexample:
  "body (request0\<lparr>body := GoodJson (JObj [(''password'', JStr [])])\<rparr>)
     = GoodJson (JObj [(''password'', JStr [])])
   \<and> map_of [(''password'', JStr [])] ''password'' = Some (JStr [])
   \<and> JStr [] \<noteq> JStr ''23E51A05C1''
   \<and> fst (log_action env0 (request0\<lparr>body := GoodJson (JObj [(''password'', JStr [])])\<rparr>) world0)
       = Inr (Jsonify (JObj [(''status'', JStr ''ok''), (''result'', JStr ''clicked'')]))"
  by (simp add: log_action_def get_json_def requests_post_def py_defs Let_def dict_get_def
      url_set_def env0_def)

text \<open>
  C10. For a body that is well-formed JSON but not an object (an array, a string, a number,
  a boolean, \<open>null\<close>), \<open>log_action\<close> answers with status \<open>error\<close> and the
  message of the \<open>AttributeError\<close> raised by \<open>data.get\<close>, and nothing is posted
  to the logging sink.
\<close>

theorem log_action_non_object:
  assumes "body r = GoodJson j" and "\<forall>kv. j \<noteq> JObj kv"
  shows "fst (log_action e r w) =
           Inr (Jsonify (JObj [(''status'', JStr ''error''),
                               (''error'', JStr (str_exn (no_attribute_get j)))]))
       \<and> posted (snd (log_action e r w)) = posted w"
  using assms
  by (cases j) (simp_all add: log_action_def get_json_def py_defs)

theorem log_action_non_object_witness:
  "body (request0\<lparr>body := GoodJson (JArr [JStr ''23E51A05C1''])\<rparr>) = GoodJson (JArr [JStr ''23E51A05C1''])
   \<and> (\<forall>kv. JArr [JStr ''23E51A05C1''] \<noteq> JObj kv)
   \<and> fst (log_action env0 (request0\<lparr>body := GoodJson (JArr [JStr ''23E51A05C1''])\<rparr>) world0) =
       Inr (Jsonify (JObj [(''status'', JStr ''error''),
              (''error'', JStr ([CHR 0x27] @ ''list'' @ [CHR 0x27] @ '' object has no attribute '' @
                                [CHR 0x27] @ ''get'' @ [CHR 0x27]))]))
   \<and> posted (snd (log_action env0 (request0\<lparr>body := GoodJson (JArr [JStr ''23E51A05C1''])\<rparr>) world0)) = []"
proof -
  have b: "body (request0\<lparr>body := GoodJson (JArr [JStr ''23E51A05C1''])\<rparr>)
             = GoodJson (JArr [JStr ''23E51A05C1''])" by simp
  have n: "\<forall>kv. JArr [JStr ''23E51A05C1''] \<noteq> JObj kv" by simp
  from log_action_non_object[OF b n, of env0 world0] show ?thesis
    by (simp add: no_attribute_get_def world0_def)
qed

section \<open>The upload (\<open>upload_story\<close>)\<close>

text \<open>
  C4, as amended. For a request whose form data the parser accepts: without a \<open>video\<close>
  part in \<open>request.files\<close>, \<open>upload_story\<close> answers exactly
  \<open>{status: error, error: No video part}\<close>; with a \<open>video\<close> part whose filename is
  empty it answers exactly \<open>{status: error, error: No selected file}\<close>. In both cases
  the world is untouched: nothing is uploaded, cached, posted or printed.
\<close>

theorem upload_story_validation:
  assumes "form_error r = None"
  shows "(map_of (files r) ''video'' = None \<longrightarrow>
      upload_story secure_filename e r w =
        (Inr (Jsonify (JObj [(''status'', JStr ''error''), (''error'', JStr ''No video part'')])), w))
   \<and> (\<forall>video. map_of (files r) ''video'' = Some video \<and> filename video = [] \<longrightarrow>
      upload_story secure_filename e r w =
        (Inr (Jsonify (JObj [(''status'', JStr ''error''), (''error'', JStr ''No selected file'')])), w))"
  using assms by (simp add: upload_story_def request_files_def py_defs)

theorem upload_story_validation_witness:
  "form_error (request0\<lparr>files := []\<rparr>) = None
   \<and> map_of (files (request0\<lparr>files := []\<rparr>)) ''video'' = None
   \<and> upload_story id env0 (request0\<lparr>files := []\<rparr>) world0 =
        (Inr (Jsonify (JObj [(''status'', JStr ''error''), (''error'', JStr ''No video part'')])), world0)
   \<and> form_error (request0\<lparr>files := [(''video'', \<lparr>filename = [], stream = [7]\<rparr>)]\<rparr>) = None
   \<and> map_of (files (request0\<lparr>files := [(''video'', \<lparr>filename = [], stream = [7]\<rparr>)]\<rparr>)) ''video''
        = Some \<lparr>filename = [], stream = [7]\<rparr>
   \<and> upload_story id env0 (request0\<lparr>files := [(''video'', \<lparr>filename = [], stream = [7]\<rparr>)]\<rparr>) world0 =
        (Inr (Jsonify (JObj [(''status'', JStr ''error''), (''error'', JStr ''No selected file'')])), world0)
   \<and> uploaded world0 = []"
proof -
  have p1: "form_error (request0\<lparr>files := []\<rparr>) = None"
    and p2: "form_error (request0\<lparr>files := [(''video'', \<lparr>filename = [], stream = [7]\<rparr>)]\<rparr>) = None"
    by (simp_all add: request0_def)
  from upload_story_validation[OF p1, of id env0 world0]
    upload_story_validation[OF p2, of id env0 world0] p1 p2
  show ?thesis by (simp add: world0_def)
qed

text \<open>
  C4 as stated fails for a request that carries no \<open>video\<close> part and whose form data
  the parser refuses (more fields than it allows): reading \<open>request.files\<close> raises inside
  the \<open>try\<close>, and the answer carries the text of that exception, not
  \<open>No video part\<close>.
\<close>

theorem upload_story_form_refused_counterexample:
  "map_of (files (request0\<lparr>files := [], form_error := Some too_many_fields\<rparr>)) ''video'' = None
   \<and> fst (upload_story id env0 (request0\<lparr>files := [], form_error := Some too_many_fields\<rparr>) world0) =
       Inr (Jsonify (JObj [(''status'', JStr ''error''),
              (''error'', JStr ''413 Request Entity Too Large: The data value transmitted exceeds the capacity limit.'')]))
   \<and> fst (upload_story id env0 (request0\<lparr>files := [], form_error := Some too_many_fields\<rparr>) world0) \<noteq>
       Inr (Jsonify (JObj [(''status'', JStr ''error''), (''error'', JStr ''No video part'')]))"
  by (simp add: upload_story_def request_files_def py_defs too_many_fields_def)

text \<open>
  C5, as amended. For an upload whose form data the parser accepts, with a \<open>video\<close>
  part of non-empty filename, whose upload to the media host succeeds and returns a
  non-empty \<open>secure_url\<close>, the answer is
  \<open>{status: ok, video_url: secure_url}\<close>; and when the write of the cache file
  succeeds, the cache file holds that URL and, the cache file being readable, a following
  \<open>get_last_video\<close> with the remote unreachable returns that URL.
\<close>

theorem upload_story_then_resolve:
  assumes "map_of (files r) ''video'' = Some video" and "filename video \<noteq> []"
    and "upload_outcome e = UploadOk res"
    and "map_of res ''secure_url'' = Some (JStr u)" and "u \<noteq> []"
    and "form_error r = None"
  shows "fst (upload_story secure_filename e r w) =
           Inr (Jsonify (JObj [(''status'', JStr ''ok''), (''video_url'', JStr u)]))
       \<and> (cache_write w = WriteOk \<longrightarrow>
            cache_file (snd (upload_story secure_filename e r w)) =
              Some (Doc (JObj [(''video_url'', JStr u)]))
            \<and> (\<forall>e2. remote_unreachable e2 \<and> read_fault w = None \<longrightarrow>
                  fst (get_last_video e2 (snd (upload_story secure_filename e r w))) = Inr (JStr u)))"
proof -
  let ?w' = "snd (upload_story secure_filename e r w)"
  from assms(4) have v: "dict_get res ''secure_url'' JNull = JStr u"
    by (simp add: dict_get_def)
  note up = upload_story_uploaded[OF assms(1,2,3,6), of secure_filename w, unfolded v]
  have resp: "fst (upload_story secure_filename e r w) =
           Inr (Jsonify (JObj [(''status'', JStr ''ok''), (''video_url'', JStr u)]))"
    using up by simp
  have later: "fst (get_last_video e2 ?w') = Inr (JStr u)"
    if ok: "cache_write w = WriteOk" and un: "remote_unreachable e2" and rd: "read_fault w = None"
    for e2
  proof -
    from up ok have c: "cache_file ?w' = Some (Doc (JObj [(''video_url'', JStr u)]))"
      by (simp add: save_last_video_run)
    from up rd have f: "read_fault ?w' = None" by simp
    from get_last_video_fallback[OF unreachable_fails[OF un], of ?w']
    have "fst (get_last_video e2 ?w') = fst (read_cache ?w')" by simp
    with c f show ?thesis by (simp add: read_cache_present dict_get_def)
  qed
  have cache: "cache_write w = WriteOk \<Longrightarrow>
      cache_file ?w' = Some (Doc (JObj [(''video_url'', JStr u)]))"
    using up by (simp add: save_last_video_run)
  from resp later cache show ?thesis by blast
qed

theorem upload_story_then_resolve_witness:
  "map_of (files request0) ''video'' = Some \<lparr>filename = ''clip.mp4'', stream = [0, 1, 2]\<rparr>
   \<and> form_error request0 = None
   \<and> upload_outcome env0 = UploadOk [(''secure_url'', JStr ''https://cdn.example/up.mp4'')]
   \<and> cache_write world0 = WriteOk \<and> read_fault world0 = None
   \<and> remote_unreachable (env0\<lparr>get_outcome := GetRaises net_error\<rparr>)
   \<and> fst (upload_story id env0 request0 world0) =
       Inr (Jsonify (JObj [(''status'', JStr ''ok''),
                           (''video_url'', JStr ''https://cdn.example/up.mp4'')]))
   \<and> cache_file (snd (upload_story id env0 request0 world0)) =
       Some (Doc (JObj [(''video_url'', JStr ''https://cdn.example/up.mp4'')]))
   \<and> fst (get_last_video (env0\<lparr>get_outcome := GetRaises net_error\<rparr>)
            (snd (upload_story id env0 request0 world0))) = Inr (JStr ''https://cdn.example/up.mp4'')"
proof -
  have f: "map_of (files request0) ''video'' = Some \<lparr>filename = ''clip.mp4'', stream = [0, 1, 2]\<rparr>"
    by (simp add: request0_def)
  have n: "filename \<lparr>filename = ''clip.mp4'', stream = [0, 1, 2]\<rparr> \<noteq> []" by simp
  have o: "upload_outcome env0 = UploadOk [(''secure_url'', JStr ''https://cdn.example/up.mp4'')]"
    by (simp add: env0_def)
  have m: "map_of [(''secure_url'', JStr ''https://cdn.example/up.mp4'')] ''secure_url''
             = Some (JStr ''https://cdn.example/up.mp4'')" by simp
  have u: "''https://cdn.example/up.mp4'' \<noteq> []" by simp
  have c: "cache_write world0 = WriteOk" and rd: "read_fault world0 = None"
    by (simp_all add: world0_def)
  have un: "remote_unreachable (env0\<lparr>get_outcome := GetRaises net_error\<rparr>)"
    by (simp add: remote_unreachable_def url_set_def env0_def)
  have p: "form_error request0 = None" by (simp add: request0_def)
  from upload_story_then_resolve[OF f n o m u p, of id world0] f o c rd un p show ?thesis
    by simp
qed

text \<open>
  C5 as stated fails when the cache file cannot be opened for writing: the upload succeeds
  and is answered with the new URL, but the following \<open>get_last_video\<close> with the
  remote unreachable returns the URL cached before.
\<close>

theorem upload_story_unwritable_cache_counterexample:
  "map_of (files request0) ''video'' = Some \<lparr>filename = ''clip.mp4'', stream = [0, 1, 2]\<rparr>
   \<and> upload_outcome env0 = UploadOk [(''secure_url'', JStr ''https://cdn.example/up.mp4'')]
   \<and> fst (upload_story id env0 request0 (world0\<lparr>cache_write := OpenFails disk_error\<rparr>)) =
       Inr (Jsonify (JObj [(''status'', JStr ''ok''),
                           (''video_url'', JStr ''https://cdn.example/up.mp4'')]))
   \<and> fst (get_last_video (env0\<lparr>get_outcome := GetRaises net_error\<rparr>)
            (snd (upload_story id env0 request0 (world0\<lparr>cache_write := OpenFails disk_error\<rparr>))))
       = Inr (JStr ''https://cdn.example/old.mp4'')"
  by (simp add: upload_story_def request_files_def cloudinary_upload_def requests_post_def
      py_defs Let_def
      save_last_video_run get_last_video_def fetch_remote_def requests_get_json_def
      read_cache_def os_path_exists_def open_r_json_load_def
      url_set_def env0_def world0_def request0_def dict_get_def)

text \<open>
  C9, as amended. When the form data is accepted, the request carries a \<open>video\<close>
  part of non-empty filename, the upload succeeds and its result has no \<open>secure_url\<close>,
  \<open>upload_story\<close> answers \<open>{status: ok, video_url: null}\<close>; and when the write of
  the cache file succeeds, the cache file holds \<open>{"video_url": null}\<close>.
\<close>

theorem upload_story_no_secure_url:
  assumes "map_of (files r) ''video'' = Some video" and "filename video \<noteq> []"
    and "upload_outcome e = UploadOk res"
    and "map_of res ''secure_url'' = None"
    and "form_error r = None"
  shows "fst (upload_story secure_filename e r w) =
           Inr (Jsonify (JObj [(''status'', JStr ''ok''), (''video_url'', JNull)]))
       \<and> (cache_write w = WriteOk \<longrightarrow>
            cache_file (snd (upload_story secure_filename e r w)) =
              Some (Doc (JObj [(''video_url'', JNull)])))"
proof -
  from assms(4) have v: "dict_get res ''secure_url'' JNull = JNull"
    by (simp add: dict_get_def)
  from upload_story_uploaded[OF assms(1,2,3,5), of secure_filename w, unfolded v]
  show ?thesis by (simp add: save_last_video_run)
qed

theorem upload_story_no_secure_url_witness:
  "map_of (files request0) ''video'' = Some \<lparr>filename = ''clip.mp4'', stream = [0, 1, 2]\<rparr>
   \<and> form_error request0 = None
   \<and> upload_outcome (env0\<lparr>upload_outcome := UploadOk [(''public_id'', JStr ''stories/abc'')]\<rparr>)
       = UploadOk [(''public_id'', JStr ''stories/abc'')]
   \<and> map_of [(''public_id'', JStr ''stories/abc'')] ''secure_url'' = None
   \<and> cache_write world0 = WriteOk
   \<and> fst (upload_story id (env0\<lparr>upload_outcome := UploadOk [(''public_id'', JStr ''stories/abc'')]\<rparr>)
            request0 world0) =
       Inr (Jsonify (JObj [(''status'', JStr ''ok''), (''video_url'', JNull)]))
   \<and> cache_file (snd (upload_story id
         (env0\<lparr>upload_outcome := UploadOk [(''public_id'', JStr ''stories/abc'')]\<rparr>) request0 world0)) =
       Some (Doc (JObj [(''video_url'', JNull)]))"
proof -
  have f: "map_of (files request0) ''video'' = Some \<lparr>filename = ''clip.mp4'', stream = [0, 1, 2]\<rparr>"
    by (simp add: request0_def)
  have n: "filename \<lparr>filename = ''clip.mp4'', stream = [0, 1, 2]\<rparr> \<noteq> []" by simp
  have o: "upload_outcome (env0\<lparr>upload_outcome := UploadOk [(''public_id'', JStr ''stories/abc'')]\<rparr>)
       = UploadOk [(''public_id'', JStr ''stories/abc'')]" by simp
  have m: "map_of [(''public_id'', JStr ''stories/abc'')] ''secure_url'' = None" by simp
  have c: "cache_write world0 = WriteOk" by (simp add: world0_def)
  have p: "form_error request0 = None" by (simp add: request0_def)
  from upload_story_no_secure_url[OF f n o m p, of id world0] f o m c p show ?thesis
    by simp
qed

text \<open>
  C9 as stated fails when the cache file cannot be opened for writing: the answer is
  \<open>{status: ok, video_url: null}\<close>, and the cache file keeps the URL it held.
\<close>

theorem upload_story_null_not_cached_counterexample:
  "map_of (files request0) ''video'' = Some \<lparr>filename = ''clip.mp4'', stream = [0, 1, 2]\<rparr>
   \<and> map_of [(''public_id'', JStr ''stories/abc'')] ''secure_url'' = None
   \<and> fst (upload_story id (env0\<lparr>upload_outcome := UploadOk [(''public_id'', JStr ''stories/abc'')]\<rparr>)
            request0 (world0\<lparr>cache_write := OpenFails disk_error\<rparr>)) =
       Inr (Jsonify (JObj [(''status'', JStr ''ok''), (''video_url'', JNull)]))
   \<and> cache_file (snd (upload_story id
         (env0\<lparr>upload_outcome := UploadOk [(''public_id'', JStr ''stories/abc'')]\<rparr>)
         request0 (world0\<lparr>cache_write := OpenFails disk_error\<rparr>))) =
       Some (Doc (JObj [(''video_url'', JStr ''https://cdn.example/old.mp4'')]))"
  by (simp add: upload_story_def request_files_def cloudinary_upload_def requests_post_def
      py_defs Let_def
      save_last_video_run url_set_def env0_def world0_def request0_def dict_get_def)

section \<open>The logging sink never decides the response\<close>

text \<open>
  C6. Whether the POST to the logging sink succeeds or raises does not change what
  \<open>index\<close> returns, and \<open>index\<close> always returns the rendered page, showing what
  \<open>get_last_video\<close> returned; whether the POST succeeds, raises, or is not made at all
  because no URL is configured does not change what \<open>log_action\<close> and
  \<open>upload_story\<close> return.
\<close>

theorem sink_failure_keeps_response:
  "fst (index (e\<lparr>post_outcome := po\<rparr>) r w) = fst (index e r w)
   \<and> (\<exists>v. fst (get_last_video e w) = Inr v \<and> fst (index e r w) = Inr (Html v))
   \<and> fst (log_action (e\<lparr>post_outcome := po, GOOGLE_SCRIPT_URL := u\<rparr>) r w) = fst (log_action e r w)
   \<and> fst (upload_story secure_filename (e\<lparr>post_outcome := po, GOOGLE_SCRIPT_URL := u\<rparr>) r w)
       = fst (upload_story secure_filename e r w)"
proof -
  obtain v where v: "fst (get_last_video e w) = Inr v"
    using get_last_video_returns[of e w] by blast
  then have "fst (get_last_video (e\<lparr>post_outcome := po\<rparr>) w) = Inr v"
    by (simp add: get_last_video_post_irrelevant)
  then have "fst (index (e\<lparr>post_outcome := po\<rparr>) r w) = Inr (Html v)"
    by (rule index_response)
  moreover from v have "fst (index e r w) = Inr (Html v)" by (rule index_response)
  moreover have "fst (log_action (e\<lparr>post_outcome := po, GOOGLE_SCRIPT_URL := u\<rparr>) r w)
      = fst (log_action e r w)"
    by (rule log_action_env_irrelevant)
  moreover have "fst (upload_story secure_filename (e\<lparr>post_outcome := po, GOOGLE_SCRIPT_URL := u\<rparr>) r w)
       = fst (upload_story secure_filename e r w)"
    by (rule upload_story_post_irrelevant) simp
  ultimately show ?thesis using v by simp
qed

end
